theory Spec2Isabelle
  imports Main
begin

section \<open>Plugins, pipelines and reports (types/index.ts)\<close>

text \<open>
  A plugin call either returns or throws (a rejected promise is awaited, so it is a throw
  as well). A thrown value is an \<open>Error\<close> instance carrying its message, or
  anything else; the source tells them apart with \<open>error instanceof Error\<close>.
  Plugins are taken as functions of the record they are given.
\<close>

datatype thrown = ErrorObj string | NonError

datatype 'a outcome = Returns 'a | Throws thrown

type_synonym 'r FilterPlugin = "'r \<Rightarrow> bool outcome"

type_synonym 'r OutputPlugin = "'r \<Rightarrow> unit outcome"

text \<open>
  \<open>ProcessingPipeline\<close>: the optional fields \<open>filter?\<close> and \<open>filters?\<close> are
  options; the type comments the second one as the AND of several filters.
\<close>

record ProcessingPipeline =
  pipeline_name :: string
  pipeline_filter :: "string option"
  pipeline_filters :: "string list option"
  pipeline_outputs :: "string list"

record OutputResult =
  outputName :: string
  output_success :: bool
  output_error :: "string option"

record PipelineResult =
  pipelineName :: string
  success :: bool
  filtered :: "bool option"
  error_text :: "string option"
  outputResults :: "OutputResult list"

section \<open>Observable effects\<close>

text \<open>
  Every plugin invocation, console line and emitted event is written to a trace, in the
  order the code performs them. A plugin call is tagged with the place it is made from
  (the global lists or a named pipeline). Console lines are constructors, one for each
  message of the source, with the values the message interpolates.
\<close>

datatype scope = GlobalScope | PipelineScope string

datatype message =
    GlobalFilterNotFound string
  | GlobalFilterError string thrown
  | PipelineProcessingError string thrown
  | OutputPluginNotFound string
  | PipelineOutputError string string thrown
  | GlobalOutputPluginNotFound string
  | GlobalOutputError string thrown
  | RecordPipelineError thrown

datatype 'r event =
    RecordFilteredGlobal 'r string nat
  | RecordFilteredPipeline 'r string string string nat
  | RecordOutputPipeline 'r string string string nat
  | RecordOutputGlobal 'r string string nat
  | PipelineResults 'r string nat "PipelineResult list"
  | PipelineError 'r thrown string nat

datatype 'r effect =
    FilterCall scope string 'r
  | OutputCall scope string 'r
  | ConsoleWarn message
  | ConsoleError message
  | Emit "'r event"

section \<open>ProcessingPipelineManager\<close>

record 'r manager =
  filters :: "string \<rightharpoonup> 'r FilterPlugin"
  outputs :: "string \<rightharpoonup> 'r OutputPlugin"
  pipelines :: "ProcessingPipeline list"
  globalFilters :: "string list"
  globalOutputs :: "string list"

definition addFilter :: "string \<Rightarrow> 'r FilterPlugin \<Rightarrow> 'r manager \<Rightarrow> 'r manager" where
  "addFilter n f m = m\<lparr>filters := (filters m)(n \<mapsto> f)\<rparr>"

definition addOutput :: "string \<Rightarrow> 'r OutputPlugin \<Rightarrow> 'r manager \<Rightarrow> 'r manager" where
  "addOutput n out m = m\<lparr>outputs := (outputs m)(n \<mapsto> out)\<rparr>"

definition setPipelines :: "ProcessingPipeline list \<Rightarrow> 'r manager \<Rightarrow> 'r manager" where
  "setPipelines ps m = m\<lparr>pipelines := ps\<rparr>"

definition setGlobalFilters :: "string list \<Rightarrow> 'r manager \<Rightarrow> 'r manager" where
  "setGlobalFilters ns m = m\<lparr>globalFilters := ns\<rparr>"

definition setGlobalOutputs :: "string list \<Rightarrow> 'r manager \<Rightarrow> 'r manager" where
  "setGlobalOutputs ns m = m\<lparr>globalOutputs := ns\<rparr>"

text \<open>The text kept in a report: \<open>error instanceof Error ? error.message : 'Unknown error'\<close>.\<close>

fun error_message :: "thrown \<Rightarrow> string" where
  "error_message (ErrorObj msg) = msg"
| "error_message NonError = ''Unknown error''"

text \<open>
  The message of the error thrown for an unregistered pipeline filter. The source's
  literal is Japanese text followed by the filter name; the literal is written in
  English here.
\<close>

definition filter_not_found :: "string \<Rightarrow> string" where
  "filter_not_found f = ''filter not found: '' @ f"

text \<open>
  \<open>applyGlobalFilters\<close>: the loop over \<open>this.globalFilters\<close>; the list argument is
  the part of it still to visit. An unregistered name warns and continues, a filter
  that returns false or throws ends the loop with \<open>false\<close>.
\<close>

fun applyGlobalFilters :: "'r manager \<Rightarrow> 'r \<Rightarrow> string list \<Rightarrow> 'r effect list \<times> bool" where
  "applyGlobalFilters m r [] = ([], True)"
| "applyGlobalFilters m r (filterName # rest) =
     (case filters m filterName of
        None \<Rightarrow>
          (let (es, b) = applyGlobalFilters m r rest
           in (ConsoleWarn (GlobalFilterNotFound filterName) # es, b))
      | Some flt \<Rightarrow>
          (case flt r of
             Returns shouldProcess \<Rightarrow>
               (if \<not> shouldProcess then ([FilterCall GlobalScope filterName r], False)
                else (let (es, b) = applyGlobalFilters m r rest
                      in (FilterCall GlobalScope filterName r # es, b)))
           | Throws err \<Rightarrow>
               ([FilterCall GlobalScope filterName r,
                 ConsoleError (GlobalFilterError filterName err)], False)))"

text \<open>
  The output loop of \<open>processPipeline\<close>: one result entry for each output name, in
  order. An unregistered name warns and gives a failed entry; a throwing output is
  caught and gives a failed entry with the error text; the loop always continues.
\<close>

fun pipelineOutputs ::
  "'r manager \<Rightarrow> string \<Rightarrow> 'r \<Rightarrow> string \<Rightarrow> nat \<Rightarrow> string list \<Rightarrow> 'r effect list \<times> OutputResult list" where
  "pipelineOutputs m pname r filePath lineNumber [] = ([], [])"
| "pipelineOutputs m pname r filePath lineNumber (outName # rest) =
     (let (es, rs) = pipelineOutputs m pname r filePath lineNumber rest
      in case outputs m outName of
           None \<Rightarrow>
             (ConsoleWarn (OutputPluginNotFound outName) # es,
              \<lparr>outputName = outName, output_success = False,
               output_error = Some ''Output plugin not found''\<rparr> # rs)
         | Some out \<Rightarrow>
             (case out r of
                Returns u \<Rightarrow>
                  (OutputCall (PipelineScope pname) outName r
                     # Emit (RecordOutputPipeline r pname outName filePath lineNumber) # es,
                   \<lparr>outputName = outName, output_success = True, output_error = None\<rparr> # rs)
              | Throws err \<Rightarrow>
                  (OutputCall (PipelineScope pname) outName r
                     # ConsoleError (PipelineOutputError pname outName err) # es,
                   \<lparr>outputName = outName, output_success = False,
                    output_error = Some (error_message err)\<rparr> # rs)))"

text \<open>
  \<open>processPipeline\<close>. Only the field \<open>filter\<close> is read; \<open>if (pipeline.filter)\<close> is
  false for an absent field and for the empty string. An unregistered filter and a
  throwing filter leave the function by an exception (\<open>Inl\<close>), which the caller catches.
  The field \<open>filters\<close> is never read.
\<close>

definition processPipeline ::
  "'r manager \<Rightarrow> ProcessingPipeline \<Rightarrow> 'r \<Rightarrow> string \<Rightarrow> nat \<Rightarrow> 'r effect list \<times> (thrown + PipelineResult)" where
  "processPipeline m pipeline r filePath lineNumber =
     (let (oes, ors) =
            pipelineOutputs m (pipeline_name pipeline) r filePath lineNumber (pipeline_outputs pipeline);
          passed = \<lparr>pipelineName = pipeline_name pipeline, success = True,
                    filtered = Some False, error_text = None, outputResults = ors\<rparr>
      in case pipeline_filter pipeline of
           None \<Rightarrow> (oes, Inr passed)
         | Some f \<Rightarrow>
             if f = [] then (oes, Inr passed)
             else (case filters m f of
                     None \<Rightarrow> ([], Inl (ErrorObj (filter_not_found f)))
                   | Some flt \<Rightarrow>
                       (case flt r of
                          Throws err \<Rightarrow>
                            ([FilterCall (PipelineScope (pipeline_name pipeline)) f r], Inl err)
                        | Returns shouldProcess \<Rightarrow>
                            if \<not> shouldProcess then
                              ([FilterCall (PipelineScope (pipeline_name pipeline)) f r,
                                Emit (RecordFilteredPipeline r (pipeline_name pipeline) f
                                        filePath lineNumber)],
                               Inr \<lparr>pipelineName = pipeline_name pipeline, success = True,
                                    filtered = Some True, error_text = None,
                                    outputResults = []\<rparr>)
                            else
                              (FilterCall (PipelineScope (pipeline_name pipeline)) f r # oes,
                               Inr passed))))"

text \<open>
  \<open>processPipelines\<close>: every pipeline in declaration order; an exception out of
  \<open>processPipeline\<close> is caught and becomes a failed result with no output entries.
\<close>

fun processPipelines ::
  "'r manager \<Rightarrow> 'r \<Rightarrow> string \<Rightarrow> nat \<Rightarrow> ProcessingPipeline list \<Rightarrow> 'r effect list \<times> PipelineResult list" where
  "processPipelines m r filePath lineNumber [] = ([], [])"
| "processPipelines m r filePath lineNumber (pipeline # rest) =
     (let (es, rs) = processPipelines m r filePath lineNumber rest
      in case processPipeline m pipeline r filePath lineNumber of
           (e1, Inr result) \<Rightarrow> (e1 @ es, result # rs)
         | (e1, Inl err) \<Rightarrow>
             (e1 @ ConsoleError (PipelineProcessingError (pipeline_name pipeline) err) # es,
              \<lparr>pipelineName = pipeline_name pipeline, success = False, filtered = None,
               error_text = Some (error_message err), outputResults = []\<rparr> # rs))"

text \<open>\<open>applyGlobalOutputs\<close>: unregistered names warn, failures are logged, no report.\<close>

fun applyGlobalOutputs :: "'r manager \<Rightarrow> 'r \<Rightarrow> string \<Rightarrow> nat \<Rightarrow> string list \<Rightarrow> 'r effect list" where
  "applyGlobalOutputs m r filePath lineNumber [] = []"
| "applyGlobalOutputs m r filePath lineNumber (outName # rest) =
     (case outputs m outName of
        None \<Rightarrow>
          ConsoleWarn (GlobalOutputPluginNotFound outName)
            # applyGlobalOutputs m r filePath lineNumber rest
      | Some out \<Rightarrow>
          (case out r of
             Returns u \<Rightarrow>
               OutputCall GlobalScope outName r
                 # Emit (RecordOutputGlobal r outName filePath lineNumber)
                 # applyGlobalOutputs m r filePath lineNumber rest
           | Throws err \<Rightarrow>
               OutputCall GlobalScope outName r
                 # ConsoleError (GlobalOutputError outName err)
                 # applyGlobalOutputs m r filePath lineNumber rest))"

text \<open>
  \<open>processRecord\<close> of the manager. Each of the three stages catches what its plugins
  throw, so the outer \<open>catch\<close> (which would emit \<open>pipeline-error\<close>) is not reached by a
  plugin failure; event listeners are taken not to throw.
\<close>

definition processRecord :: "'r manager \<Rightarrow> 'r \<Rightarrow> string \<Rightarrow> nat \<Rightarrow> 'r effect list" where
  "processRecord m r filePath lineNumber =
     (let (e1, passedGlobalFilters) = applyGlobalFilters m r (globalFilters m)
      in if \<not> passedGlobalFilters then
           e1 @ [Emit (RecordFilteredGlobal r filePath lineNumber)]
         else
           (let (e2, pipelineResults) = processPipelines m r filePath lineNumber (pipelines m);
                e3 = (if length (globalOutputs m) > 0
                      then applyGlobalOutputs m r filePath lineNumber (globalOutputs m)
                      else [])
            in e1 @ e2 @ e3 @ [Emit (PipelineResults r filePath lineNumber pipelineResults)]))"

section \<open>JsonlStreamProcessor\<close>

text \<open>
  The file system is a map from a path to the bytes of the file; a path that is not in
  the map makes \<open>stat\<close> and the read stream fail with the error \<open>enoent\<close>. A
  buffered read looks at the file twice: \<open>stat\<close> gives its size, and later the read
  stream, which has a start offset and no end, delivers the file up to the end it has
  when the stream runs. A writer can append in between, so the functions take two file
  systems: \<open>fsStat\<close>, the one \<open>stat\<close> sees, and \<open>fsRead\<close>, the one the stream
  reads. They are the same when nothing is written during the read. \<open>JSON.parse\<close> is
  a parameter \<open>parse\<close>: it returns the record or throws.
\<close>

definition enoent :: thrown where
  "enoent = ErrorObj ''ENOENT: no such file or directory''"

datatype pmessage =
    AlreadyProcessing string
  | FileProcessingError string thrown
  | JsonParseError nat string thrown
  | FileTruncated string
  | NoNewData string
  | BufferedRead string nat nat
  | PositionReset string

datatype 'r pevent =
    ProcessingStart string
  | ProcessingComplete string
  | ProcessingError string thrown
  | ParseError string nat string thrown
  | Forwarded "'r event"

text \<open>
  The processor's trace: what the manager did (\<open>Manager\<close>), the processor's own events,
  each call of \<open>JSON.parse\<close> with the line it is given, each \<open>stat\<close>, and each read
  stream with its start offset and the bytes it delivers.
\<close>

datatype 'r peffect =
    Manager "'r effect"
  | PEmit "'r pevent"
  | JsonParse string
  | Stat string
  | ReadStream string nat string
  | PConsoleLog pmessage
  | PConsoleWarn pmessage
  | PConsoleError pmessage

record pstate =
  isProcessing :: bool
  filePositions :: "string \<rightharpoonup> nat"
  enableBuffering :: bool

text \<open>\<open>this.filePositions.get(filePath) || 0\<close>\<close>

definition getFilePosition :: "pstate \<Rightarrow> string \<Rightarrow> nat" where
  "getFilePosition st filePath = (case filePositions st filePath of None \<Rightarrow> 0 | Some n \<Rightarrow> n)"

definition resetFilePosition :: "pstate \<Rightarrow> string \<Rightarrow> pstate" where
  "resetFilePosition st filePath = st\<lparr>filePositions := (filePositions st)(filePath := None)\<rparr>"

text \<open>
  The \<open>readline\<close> interface (with \<open>crlfDelay: Infinity\<close>) as the loop it runs over the
  characters of the stream. The state is: whether the last character was a carriage
  return, the line being collected, and the lines delivered so far. A line feed or a
  carriage return ends a line; a line feed right after a carriage return is part of the
  same line break. When the stream ends, what has been collected is delivered as a last
  line if it is not empty: a trailing line without a newline is delivered as well.
\<close>

definition LF :: char where "LF = CHR 0x0A"

definition CR :: char where "CR = CHR 0x0D"

fun readline_feed :: "bool \<times> string \<times> string list \<Rightarrow> char \<Rightarrow> bool \<times> string \<times> string list" where
  "readline_feed (sawReturn, cur, out) c =
     (if c = LF then (if sawReturn then (False, cur, out) else (False, [], out @ [cur]))
      else if c = CR then (True, [], out @ [cur])
      else (False, cur @ [c], out))"

fun readline_close :: "bool \<times> string \<times> string list \<Rightarrow> string list" where
  "readline_close (sawReturn, cur, out) = (if cur = [] then out else out @ [cur])"

definition readline_lines :: "string \<Rightarrow> string list" where
  "readline_lines text = readline_close (foldl readline_feed (False, [], []) text)"

text \<open>
  \<open>line.trim() === ''\<close> on the ASCII white space characters (the lines are taken as
  byte strings, so white space outside ASCII is not modelled).
\<close>

definition is_space :: "char \<Rightarrow> bool" where
  "is_space c = (c \<in> {CHR 0x09, CHR 0x0A, CHR 0x0B, CHR 0x0C, CHR 0x0D, CHR 0x20})"

definition is_blank :: "string \<Rightarrow> bool" where
  "is_blank line = list_all is_space line"

text \<open>
  The processor forwards every event of the manager on its own emitter
  (\<open>setupPipelineEventHandlers\<close>); its \<open>processRecord\<close> calls the manager's.
\<close>

fun forward :: "'r effect \<Rightarrow> 'r peffect list" where
  "forward (Emit ev) = [Manager (Emit ev), PEmit (Forwarded ev)]"
| "forward e = [Manager e]"

definition processor_processRecord :: "'r manager \<Rightarrow> 'r \<Rightarrow> string \<Rightarrow> nat \<Rightarrow> 'r peffect list" where
  "processor_processRecord M r filePath lineNumber =
     concat (map forward (processRecord M r filePath lineNumber))"

text \<open>
  The body of the \<open>for await (const line of rl)\<close> loop, the same in both read paths:
  count the line, skip it when blank, parse it, hand the record on; a parse failure is
  logged and emitted, and the loop goes on.
\<close>

fun processLines ::
  "'r manager \<Rightarrow> (string \<Rightarrow> 'r outcome) \<Rightarrow> string \<Rightarrow> nat \<Rightarrow> string list \<Rightarrow> 'r peffect list" where
  "processLines M parse filePath lineNumber [] = []"
| "processLines M parse filePath lineNumber (line # rest) =
     (if is_blank line then []
      else JsonParse line #
        (case parse line of
           Returns r \<Rightarrow> processor_processRecord M r filePath (lineNumber + 1)
         | Throws err \<Rightarrow>
             [PConsoleError (JsonParseError (lineNumber + 1) filePath err),
              PEmit (ParseError filePath (lineNumber + 1) line err)]))
     @ processLines M parse filePath (lineNumber + 1) rest"

definition getLineNumberFromPosition :: "nat \<Rightarrow> nat" where
  "getLineNumberFromPosition position = (if position = 0 then 0 else position div 100)"

text \<open>\<open>processFileComplete\<close>: the whole file from byte 0; no offset is read or stored.\<close>

definition processFileComplete ::
  "'r manager \<Rightarrow> (string \<Rightarrow> 'r outcome) \<Rightarrow> (string \<rightharpoonup> string) \<Rightarrow> string
     \<Rightarrow> 'r peffect list \<times> thrown option" where
  "processFileComplete M parse fs filePath =
     (case fs filePath of
        None \<Rightarrow> ([], Some enoent)
      | Some content \<Rightarrow>
          (ReadStream filePath 0 content
             # processLines M parse filePath 0 (readline_lines content), None))"

text \<open>
  \<open>processFileWithBuffering\<close>: the result is the new state, the trace and the error the
  function throws, if any. The size compared with the stored offset, and stored after
  the loop, is the one \<open>stat\<close> reported; the lines come from the stream, which reads
  from the stored offset to the end of the file as it is when the stream runs. A stream
  that fails makes the loop throw before the offset is stored.
\<close>

definition processFileWithBuffering ::
  "'r manager \<Rightarrow> (string \<Rightarrow> 'r outcome) \<Rightarrow> (string \<rightharpoonup> string) \<Rightarrow> (string \<rightharpoonup> string)
     \<Rightarrow> pstate \<Rightarrow> string \<Rightarrow> pstate \<times> 'r peffect list \<times> thrown option" where
  "processFileWithBuffering M parse fsStat fsRead st filePath =
     (case fsStat filePath of
        None \<Rightarrow> (st, [Stat filePath], Some enoent)
      | Some statContent \<Rightarrow>
          (let size = length statContent;
               lastPosition = getFilePosition st filePath
           in if size < lastPosition then
                (let (es, err) = processFileComplete M parse fsRead filePath
                 in (st\<lparr>filePositions := (filePositions st)(filePath \<mapsto> 0)\<rparr>,
                     Stat filePath # PConsoleLog (FileTruncated filePath) # es, err))
              else if size = lastPosition then
                (st, [Stat filePath, PConsoleLog (NoNewData filePath)], None)
              else
                (case fsRead filePath of
                   None \<Rightarrow>
                     (st, [Stat filePath, PConsoleLog (BufferedRead filePath lastPosition size)],
                      Some enoent)
                 | Some content \<Rightarrow>
                     (st\<lparr>filePositions := (filePositions st)(filePath \<mapsto> size)\<rparr>,
                      [Stat filePath, PConsoleLog (BufferedRead filePath lastPosition size),
                       ReadStream filePath lastPosition (drop lastPosition content)]
                      @ processLines M parse filePath (getLineNumberFromPosition lastPosition)
                          (readline_lines (drop lastPosition content)),
                      None))))"

text \<open>
  \<open>processFile\<close> in two parts: the guard at its entry, and the
  \<open>try / catch / finally\<close> that a call runs once it is past the guard.
\<close>

definition processFile_body ::
  "'r manager \<Rightarrow> (string \<Rightarrow> 'r outcome) \<Rightarrow> (string \<rightharpoonup> string) \<Rightarrow> (string \<rightharpoonup> string)
     \<Rightarrow> pstate \<Rightarrow> string \<Rightarrow> pstate \<times> 'r peffect list" where
  "processFile_body M parse fsStat fsRead st filePath =
     (let (st', es, err) =
            (if enableBuffering st
             then processFileWithBuffering M parse fsStat fsRead st filePath
             else (let (es, err) = processFileComplete M parse fsRead filePath
                   in (st, es, err)))
      in (st'\<lparr>isProcessing := False\<rparr>,
          es @ (case err of
                  None \<Rightarrow> [PEmit (ProcessingComplete filePath)]
                | Some e \<Rightarrow> [PConsoleError (FileProcessingError filePath e),
                             PEmit (ProcessingError filePath e)])))"

definition processFile ::
  "'r manager \<Rightarrow> (string \<Rightarrow> 'r outcome) \<Rightarrow> (string \<rightharpoonup> string) \<Rightarrow> (string \<rightharpoonup> string)
     \<Rightarrow> pstate \<Rightarrow> string \<Rightarrow> pstate \<times> 'r peffect list" where
  "processFile M parse fsStat fsRead st filePath =
     (if isProcessing st then (st, [PConsoleWarn (AlreadyProcessing filePath)])
      else (let (st', es) =
                  processFile_body M parse fsStat fsRead (st\<lparr>isProcessing := True\<rparr>) filePath
            in (st', PEmit (ProcessingStart filePath) # es)))"

text \<open>
  Calls of \<open>processFile\<close> can overlap, because the function waits for the file system
  and for the plugins. The overlap is modelled by two kinds of steps: a call arrives
  (\<open>Call\<close>: the guard at the entry), and a call that is past the guard runs the rest of
  the function against the file systems of that moment (\<open>Complete\<close>). The list
  \<open>inflight\<close> is not a field of the class: it records, for the statements below, the
  calls that are past the guard and have not finished.
\<close>

datatype action =
    Call string
  | Complete string "string \<rightharpoonup> string" "string \<rightharpoonup> string"

record system =
  proc :: pstate
  inflight :: "string list"

fun step ::
  "'r manager \<Rightarrow> (string \<Rightarrow> 'r outcome) \<Rightarrow> system \<Rightarrow> action \<Rightarrow> system \<times> 'r peffect list" where
  "step M parse sys (Call filePath) =
     (if isProcessing (proc sys) then (sys, [PConsoleWarn (AlreadyProcessing filePath)])
      else (sys\<lparr>proc := (proc sys)\<lparr>isProcessing := True\<rparr>, inflight := filePath # inflight sys\<rparr>,
            [PEmit (ProcessingStart filePath)]))"
| "step M parse sys (Complete filePath fsStat fsRead) =
     (if filePath \<in> set (inflight sys) then
        (let (st', es) = processFile_body M parse fsStat fsRead (proc sys) filePath
         in (\<lparr>proc = st', inflight = remove1 filePath (inflight sys)\<rparr>, es))
      else (sys, []))"

fun run ::
  "'r manager \<Rightarrow> (string \<Rightarrow> 'r outcome) \<Rightarrow> system \<Rightarrow> action list \<Rightarrow> system \<times> 'r peffect list" where
  "run M parse sys [] = (sys, [])"
| "run M parse sys (a # rest) =
     (let (sys1, e1) = step M parse sys a;
          (sys2, e2) = run M parse sys1 rest
      in (sys2, e1 @ e2))"

section \<open>JsonlStreamServer and FileWatcher: start and stop\<close>

text \<open>
  The server with the part of its \<open>FileWatcher\<close> that \<open>start\<close> and \<open>stop\<close> touch:
  \<open>watcher\<close> says whether the chokidar watcher exists (is not \<open>null\<close>), and
  \<open>debounceTimers\<close> lists the paths with a pending timer. \<open>existsSync\<close> is a
  parameter. Messages are constructors; the message of the thrown error is Japanese text
  followed by the directory, written in English here.
\<close>

datatype smessage =
    ServerAlreadyRunning
  | ServerNotRunning
  | ServerStarting
  | ServerStopping
  | WatchDirectoryIs string
  | WatcherAlreadyStarted
  | WatcherStarting string
  | WatcherStopping
  | WatchDirectoryMissing string

datatype sevent = Started | Stopped

datatype wevent = WatcherStarted string | WatcherStopped

datatype seffect =
    SLog smessage
  | SWarn smessage
  | SError smessage
  | SEmit sevent
  | WatcherEmit wevent
  | ChokidarWatch string
  | ChokidarClose
  | ClearTimeout string

record server =
  watchDirectory :: string
  isRunning :: bool
  watcher :: bool
  debounceTimers :: "string list"

definition watch_directory_missing :: "string \<Rightarrow> string" where
  "watch_directory_missing d = ''watch directory does not exist: '' @ d"

definition fileWatcher_start :: "(string \<Rightarrow> bool) \<Rightarrow> server \<Rightarrow> server \<times> seffect list" where
  "fileWatcher_start existsSync s =
     (if watcher s then (s, [SWarn WatcherAlreadyStarted])
      else if \<not> existsSync (watchDirectory s) then
        (s, [SLog (WatcherStarting (watchDirectory s)), SLog (WatchDirectoryIs (watchDirectory s)),
             SError (WatchDirectoryMissing (watchDirectory s))])
      else
        (s\<lparr>watcher := True\<rparr>,
         [SLog (WatcherStarting (watchDirectory s)), SLog (WatchDirectoryIs (watchDirectory s)),
          ChokidarWatch (watchDirectory s), WatcherEmit (WatcherStarted (watchDirectory s))]))"

definition fileWatcher_stop :: "server \<Rightarrow> server \<times> seffect list" where
  "fileWatcher_stop s =
     (if watcher s then
        (s\<lparr>watcher := False, debounceTimers := []\<rparr>,
         [SLog WatcherStopping, ChokidarClose] @ map ClearTimeout (debounceTimers s)
           @ [WatcherEmit WatcherStopped])
      else (s, []))"

definition start :: "(string \<Rightarrow> bool) \<Rightarrow> server \<Rightarrow> (thrown + unit) \<times> server \<times> seffect list" where
  "start existsSync s =
     (if isRunning s then (Inr (), s, [SWarn ServerAlreadyRunning])
      else if \<not> existsSync (watchDirectory s) then
        (Inl (ErrorObj (watch_directory_missing (watchDirectory s))), s,
         [SLog ServerStarting, SLog (WatchDirectoryIs (watchDirectory s))])
      else
        (let (s', es) = fileWatcher_start existsSync (s\<lparr>isRunning := True\<rparr>)
         in (Inr (), s',
             [SLog ServerStarting, SLog (WatchDirectoryIs (watchDirectory s))] @ es
               @ [SEmit Started])))"

definition stop :: "server \<Rightarrow> server \<times> seffect list" where
  "stop s =
     (if \<not> isRunning s then (s, [SWarn ServerNotRunning])
      else
        (let (s', es) = fileWatcher_stop (s\<lparr>isRunning := False\<rparr>)
         in (s', SLog ServerStopping # es @ [SEmit Stopped])))"

section \<open>Reading the traces\<close>

text \<open>The events of a manager trace, in order.\<close>

fun emitted :: "'r effect list \<Rightarrow> 'r event list" where
  "emitted [] = []"
| "emitted (Emit ev # es) = ev # emitted es"
| "emitted (e # es) = emitted es"

fun is_output_call :: "'r effect \<Rightarrow> bool" where
  "is_output_call (OutputCall sc n r) = True"
| "is_output_call e = False"

fun is_pipeline_filter_call :: "'r effect \<Rightarrow> bool" where
  "is_pipeline_filter_call (FilterCall (PipelineScope p) n r) = True"
| "is_pipeline_filter_call e = False"

text \<open>
  A pipeline lets a record through to its outputs when it has no filter (or the empty
  name), or its filter is registered and returns true. \<open>filter_trace\<close> is the filter
  call such a pipeline makes before its outputs.
\<close>

definition passes_pipeline_filter :: "'r manager \<Rightarrow> ProcessingPipeline \<Rightarrow> 'r \<Rightarrow> bool" where
  "passes_pipeline_filter m p r =
     (case pipeline_filter p of
        None \<Rightarrow> True
      | Some f \<Rightarrow>
          f = [] \<or> (case filters m f of None \<Rightarrow> False | Some flt \<Rightarrow> flt r = Returns True))"

definition filter_trace :: "ProcessingPipeline \<Rightarrow> 'r \<Rightarrow> 'r effect list" where
  "filter_trace p r =
     (case pipeline_filter p of
        None \<Rightarrow> []
      | Some f \<Rightarrow> if f = [] then [] else [FilterCall (PipelineScope (pipeline_name p)) f r])"

text \<open>The lines given to \<open>JSON.parse\<close>, and the bytes delivered by the read streams.\<close>

fun parse_attempts :: "'r peffect list \<Rightarrow> string list" where
  "parse_attempts [] = []"
| "parse_attempts (JsonParse line # es) = line # parse_attempts es"
| "parse_attempts (e # es) = parse_attempts es"

fun bytes_read :: "'r peffect list \<Rightarrow> string" where
  "bytes_read [] = []"
| "bytes_read (ReadStream p offset text # es) = text @ bytes_read es"
| "bytes_read (e # es) = bytes_read es"

definition nonblank_lines :: "string \<Rightarrow> string list" where
  "nonblank_lines text = filter (\<lambda>line. \<not> is_blank line) (readline_lines text)"


text \<open>
  A watched file that only grows, with one read after the other. Each read comes with
  two texts: the one appended to the file before the read calls \<open>stat\<close>, and the one
  appended while the read runs, between \<open>stat\<close> and the end of the stream (empty when
  nothing is written during the read). \<open>tail_session\<close> returns, for every read, the
  state before, the content of the file that \<open>stat\<close> saw, the state after, and the
  trace.
\<close>

fun tail_session ::
  "'r manager \<Rightarrow> (string \<Rightarrow> 'r outcome) \<Rightarrow> string \<Rightarrow> string \<Rightarrow> pstate
     \<Rightarrow> (string \<times> string) list \<Rightarrow> (pstate \<times> string \<times> pstate \<times> 'r peffect list) list" where
  "tail_session M parse p content st [] = []"
| "tail_session M parse p content st ((before_stat, during_read) # rest) =
     (let (st', es) =
            processFile M parse [p \<mapsto> content @ before_stat]
              [p \<mapsto> content @ before_stat @ during_read] st p
      in (st, content @ before_stat, st', es)
           # tail_session M parse p (content @ before_stat @ during_read) st' rest)"

text \<open>
  What holds of every read of such a session: the stored offset after it is the size
  that \<open>stat\<close> saw and is not below the offset before; the lines parsed are the lines
  of the bytes the read delivered; a read that finds the size equal to the stored offset
  parses nothing and leaves the offset table as it was.
\<close>

definition read_ok :: "string \<Rightarrow> pstate \<times> string \<times> pstate \<times> 'r peffect list \<Rightarrow> bool" where
  "read_ok p x =
     (case x of (before, content', after, es) \<Rightarrow>
        getFilePosition after p = length content'
      \<and> getFilePosition before p \<le> getFilePosition after p
      \<and> parse_attempts es = nonblank_lines (bytes_read es)
      \<and> (length content' = getFilePosition before p \<longrightarrow>
           parse_attempts es = [] \<and> filePositions after = filePositions before))"

definition session_bytes :: "(pstate \<times> string \<times> pstate \<times> 'r peffect list) list \<Rightarrow> string" where
  "session_bytes session = concat (map (\<lambda>x. bytes_read (snd (snd (snd x)))) session)"

section \<open>Concrete plugins, files and states\<close>

definition demo_filters :: "string \<rightharpoonup> string FilterPlugin" where
  "demo_filters =
     [''A'' \<mapsto> (\<lambda>r. Returns False), ''B'' \<mapsto> (\<lambda>r. Returns True),
      ''T'' \<mapsto> (\<lambda>r. Throws (ErrorObj ''boom''))]"

definition demo_outputs :: "string \<rightharpoonup> string OutputPlugin" where
  "demo_outputs =
     [''X'' \<mapsto> (\<lambda>r. Throws (ErrorObj ''disk full'')), ''Y'' \<mapsto> (\<lambda>r. Returns ())]"

definition demo_manager :: "string list \<Rightarrow> ProcessingPipeline list \<Rightarrow> string manager" where
  "demo_manager gfs ps =
     \<lparr>filters = demo_filters, outputs = demo_outputs, pipelines = ps,
      globalFilters = gfs, globalOutputs = []\<rparr>"

definition demo_record :: string where
  \<open>demo_record = ''{"level":"info"}''\<close>

definition two_filters_pipeline :: ProcessingPipeline where
  "two_filters_pipeline =
     \<lparr>pipeline_name = ''p'', pipeline_filter = None, pipeline_filters = Some [''A'', ''B''],
      pipeline_outputs = [''Y'']\<rparr>"

definition first_pipeline :: ProcessingPipeline where
  "first_pipeline =
     \<lparr>pipeline_name = ''first'', pipeline_filter = Some ''B'', pipeline_filters = None,
      pipeline_outputs = [''Y'']\<rparr>"

definition xy_pipeline :: ProcessingPipeline where
  "xy_pipeline =
     \<lparr>pipeline_name = ''xy'', pipeline_filter = None, pipeline_filters = None,
      pipeline_outputs = [''X'', ''Y'']\<rparr>"

definition last_pipeline :: ProcessingPipeline where
  "last_pipeline =
     \<lparr>pipeline_name = ''last'', pipeline_filter = Some ''A'', pipeline_filters = None,
      pipeline_outputs = [''Y'']\<rparr>"

definition unknown_filter_pipeline :: ProcessingPipeline where
  "unknown_filter_pipeline =
     \<lparr>pipeline_name = ''lost'', pipeline_filter = Some ''Nope'', pipeline_filters = None,
      pipeline_outputs = [''Y'']\<rparr>"

definition unknown_in_list_pipeline :: ProcessingPipeline where
  "unknown_in_list_pipeline =
     \<lparr>pipeline_name = ''lost'', pipeline_filter = None, pipeline_filters = Some [''Nope''],
      pipeline_outputs = [''Y'']\<rparr>"

definition unknown_output_pipeline :: ProcessingPipeline where
  "unknown_output_pipeline =
     \<lparr>pipeline_name = ''gap'', pipeline_filter = Some ''B'', pipeline_filters = None,
      pipeline_outputs = [''Y'', ''Nowhere'', ''Y'']\<rparr>"

text \<open>
  A stand-in for \<open>JSON.parse\<close> that agrees with it on the lines used below: a line
  from an opening to a closing brace is returned as the record, anything else throws.
\<close>

definition demo_parse :: "string \<Rightarrow> string outcome" where
  "demo_parse line =
     (if line \<noteq> [] \<and> hd line = CHR ''{'' \<and> last line = CHR ''}'' then Returns line
      else Throws (ErrorObj ''SyntaxError''))"

definition fresh_state :: pstate where
  "fresh_state = \<lparr>isProcessing = False, filePositions = Map.empty, enableBuffering = True\<rparr>"



definition read_to_20 :: pstate where
  "read_to_20 =
     \<lparr>isProcessing = False, filePositions = [''a.jsonl'' \<mapsto> 20], enableBuffering = True\<rparr>"

definition rewritten_content :: string where
  \<open>rewritten_content = ''{"x":1}'' @ [LF]\<close>

definition rewritten_appended :: string where
  \<open>rewritten_appended = ''{"x":2}'' @ [LF]\<close>

definition first_line :: string where
  \<open>first_line = ''{"x":1}'' @ [LF]\<close>

definition second_line :: string where
  \<open>second_line = ''{"x":2}'' @ [LF]\<close>

definition stopped_server :: server where
  "stopped_server =
     \<lparr>watchDirectory = ''/logs'', isRunning = False, watcher = False, debounceTimers = []\<rparr>"

definition running_server :: server where
  "running_server =
     \<lparr>watchDirectory = ''/logs'', isRunning = True, watcher = True,
      debounceTimers = [''/logs/a.jsonl'']\<rparr>"

section \<open>The pipeline manager: lemmas\<close>

lemma emitted_append: "emitted (xs @ ys) = emitted xs @ emitted ys"
  by (induction xs rule: emitted.induct) simp_all

lemma applyGlobalFilters_emits_nothing:
  "emitted (fst (applyGlobalFilters m r ns)) = []"
  by (induction ns) (auto split: option.splits outcome.splits prod.splits)

lemma applyGlobalFilters_calls:
  "e \<in> set (fst (applyGlobalFilters m r ns)) \<Longrightarrow>
     \<not> is_output_call e \<and> \<not> is_pipeline_filter_call e"
  by (induction ns) (auto split: option.splits outcome.splits prod.splits if_splits)

lemma applyGlobalFilters_rejects:
  "n \<in> set ns \<Longrightarrow> filters m n = Some f \<Longrightarrow> f r \<noteq> Returns True \<Longrightarrow>
   \<not> snd (applyGlobalFilters m r ns)"
  by (induction ns) (auto split: option.splits outcome.splits prod.splits if_splits)

lemma applyGlobalFilters_passes:
  "snd (applyGlobalFilters m r ns) \<longleftrightarrow>
     (\<forall>n \<in> set ns. \<forall>f. filters m n = Some f \<longrightarrow> f r = Returns True)"
  by (induction ns) (auto split: option.splits outcome.splits prod.splits if_splits)

lemma processRecord_rejected:
  assumes "\<not> snd (applyGlobalFilters m r (globalFilters m))"
  shows "emitted (processRecord m r filePath lineNumber)
           = [RecordFilteredGlobal r filePath lineNumber]
       \<and> (\<forall>e \<in> set (processRecord m r filePath lineNumber).
             \<not> is_output_call e \<and> \<not> is_pipeline_filter_call e)"
proof -
  obtain es where run: "applyGlobalFilters m r (globalFilters m) = (es, False)"
    using assms by (cases "applyGlobalFilters m r (globalFilters m)") auto
  have tr: "processRecord m r filePath lineNumber
      = es @ [Emit (RecordFilteredGlobal r filePath lineNumber)]"
    by (simp add: processRecord_def run)
  have "emitted es = []"
    using applyGlobalFilters_emits_nothing [of m r "globalFilters m"] run by simp
  moreover have "\<forall>e \<in> set es. \<not> is_output_call e \<and> \<not> is_pipeline_filter_call e"
    using applyGlobalFilters_calls [of _ m r "globalFilters m"] run by simp
  ultimately show ?thesis
    by (auto simp: tr emitted_append)
qed

lemma pipelineOutputs_append:
  "pipelineOutputs m pn r fp ln (xs @ ys) =
     (fst (pipelineOutputs m pn r fp ln xs) @ fst (pipelineOutputs m pn r fp ln ys),
      snd (pipelineOutputs m pn r fp ln xs) @ snd (pipelineOutputs m pn r fp ln ys))"
  by (induction xs) (auto split: option.splits outcome.splits prod.splits)

lemma processPipelines_append:
  "processPipelines m r fp ln (xs @ ys) =
     (fst (processPipelines m r fp ln xs) @ fst (processPipelines m r fp ln ys),
      snd (processPipelines m r fp ln xs) @ snd (processPipelines m r fp ln ys))"
  by (induction xs) (auto split: sum.splits prod.splits)

lemma processPipeline_passed:
  assumes "passes_pipeline_filter m p r"
  shows "processPipeline m p r fp ln =
     (filter_trace p r @ fst (pipelineOutputs m (pipeline_name p) r fp ln (pipeline_outputs p)),
      Inr \<lparr>pipelineName = pipeline_name p, success = True, filtered = Some False,
           error_text = None,
           outputResults = snd (pipelineOutputs m (pipeline_name p) r fp ln (pipeline_outputs p))\<rparr>)"
  using assms
  by (auto simp: processPipeline_def passes_pipeline_filter_def filter_trace_def
           split: option.splits outcome.splits prod.splits)

lemma processPipeline_ignores_filters_field:
  "processPipeline m (p\<lparr>pipeline_filters := fs\<rparr>) r fp ln = processPipeline m p r fp ln"
  by (auto simp: processPipeline_def Let_def split: prod.splits option.splits outcome.splits)

lemma processRecord_passed:
  assumes "snd (applyGlobalFilters m r (globalFilters m))"
  shows "processRecord m r fp ln =
     fst (applyGlobalFilters m r (globalFilters m))
     @ fst (processPipelines m r fp ln (pipelines m))
     @ applyGlobalOutputs m r fp ln (globalOutputs m)
     @ [Emit (PipelineResults r fp ln (snd (processPipelines m r fp ln (pipelines m))))]"
  using assms
  by (cases "globalOutputs m") (auto simp: processRecord_def split: prod.splits)

section \<open>The pipeline manager: claims\<close>

text \<open>
  Claim C1. A pipeline that declares the filter list [A, B] is to run its outputs only
  if both filters return true, and is to emit a filtered-pipeline event otherwise.
  \<open>processPipeline\<close> reads the field \<open>filter\<close> only: for the pipeline
  \<open>two_filters_pipeline\<close>, whose list names the filter A that rejects every record, the
  output Y is invoked, a record-output-pipeline event is emitted, no filter is called
  and the result says \<open>filtered = false\<close>.
\<close>

theorem filters_list_not_applied:
  "processPipeline (demo_manager [] [two_filters_pipeline]) two_filters_pipeline
     demo_record ''a.jsonl'' 1
   = ([OutputCall (PipelineScope ''p'') ''Y'' demo_record,
       Emit (RecordOutputPipeline demo_record ''p'' ''Y'' ''a.jsonl'' 1)],
      Inr \<lparr>pipelineName = ''p'', success = True, filtered = Some False, error_text = None,
           outputResults =
             [\<lparr>outputName = ''Y'', output_success = True, output_error = None\<rparr>]\<rparr>)"
  by (simp add: processPipeline_def two_filters_pipeline_def demo_manager_def demo_outputs_def)

text \<open>
  Claim C4. If a registered global filter returns false for a record, the only event of
  \<open>processRecord\<close> is the filtered-global event (so no pipeline event and no
  pipeline-results report), no filter is called for a pipeline and no output, of a
  pipeline or global, is invoked.
\<close>

theorem global_filter_precedence:
  assumes "n \<in> set (globalFilters m)" and "filters m n = Some f" and "f r = Returns False"
  shows "emitted (processRecord m r filePath lineNumber)
           = [RecordFilteredGlobal r filePath lineNumber]
       \<and> (\<forall>e \<in> set (processRecord m r filePath lineNumber).
             \<not> is_output_call e \<and> \<not> is_pipeline_filter_call e)"
proof -
  have "f r \<noteq> Returns True" using assms(3) by simp
  then have "\<not> snd (applyGlobalFilters m r (globalFilters m))"
    using assms(1,2) applyGlobalFilters_rejects [of n "globalFilters m" m f r] by simp
  then show ?thesis by (rule processRecord_rejected)
qed

theorem global_filter_precedence_witness:
  "''A'' \<in> set (globalFilters (demo_manager [''B'', ''A''] [xy_pipeline]))
   \<and> emitted (processRecord (demo_manager [''B'', ''A''] [xy_pipeline]) demo_record ''a.jsonl'' 1)
       = [RecordFilteredGlobal demo_record ''a.jsonl'' 1]
   \<and> filter (\<lambda>e. is_output_call e \<or> is_pipeline_filter_call e)
         (processRecord (demo_manager [''B'', ''A''] [xy_pipeline]) demo_record ''a.jsonl'' 1) = []"
  using global_filter_precedence [of "''A''" "demo_manager [''B'', ''A''] [xy_pipeline]"
      "\<lambda>r. Returns False" demo_record "''a.jsonl''" 1]
  by (simp add: demo_manager_def demo_filters_def filter_empty_conv)

text \<open>
  Claim C5. A pipeline whose filter lets the record through and whose outputs are
  [X, Y], where X throws and Y returns: Y is invoked after X failed; the pipelines
  before and after it run as they do on their own; and the report that \<open>processRecord\<close>
  emits records X as failed with the error text and Y as succeeded.
\<close>

theorem output_isolation:
  assumes "pipeline_outputs p = [X, Y]"
    and "outputs m X = Some ox" and "ox r = Throws err"
    and "outputs m Y = Some oy" and "oy r = Returns ()"
    and "passes_pipeline_filter m p r"
    and "pipelines m = before @ p # after"
    and "snd (applyGlobalFilters m r (globalFilters m))"
    and "report = \<lparr>pipelineName = pipeline_name p, success = True, filtered = Some False,
            error_text = None,
            outputResults =
              [\<lparr>outputName = X, output_success = False, output_error = Some (error_message err)\<rparr>,
               \<lparr>outputName = Y, output_success = True, output_error = None\<rparr>]\<rparr>"
  shows "processPipeline m p r fp ln =
           (filter_trace p r @
              [OutputCall (PipelineScope (pipeline_name p)) X r,
               ConsoleError (PipelineOutputError (pipeline_name p) X err),
               OutputCall (PipelineScope (pipeline_name p)) Y r,
               Emit (RecordOutputPipeline r (pipeline_name p) Y fp ln)],
            Inr report)
       \<and> processPipelines m r fp ln (pipelines m) =
           (fst (processPipelines m r fp ln before) @ fst (processPipeline m p r fp ln)
              @ fst (processPipelines m r fp ln after),
            snd (processPipelines m r fp ln before) @ report
              # snd (processPipelines m r fp ln after))
       \<and> last (processRecord m r fp ln) =
           Emit (PipelineResults r fp ln
             (snd (processPipelines m r fp ln before) @ report
                # snd (processPipelines m r fp ln after)))"
proof -
  have one: "processPipeline m p r fp ln =
           (filter_trace p r @
              [OutputCall (PipelineScope (pipeline_name p)) X r,
               ConsoleError (PipelineOutputError (pipeline_name p) X err),
               OutputCall (PipelineScope (pipeline_name p)) Y r,
               Emit (RecordOutputPipeline r (pipeline_name p) Y fp ln)],
            Inr report)"
    using assms(1-5,9) by (simp add: processPipeline_passed [OF assms(6)])
  have all: "processPipelines m r fp ln (pipelines m) =
           (fst (processPipelines m r fp ln before) @ fst (processPipeline m p r fp ln)
              @ fst (processPipelines m r fp ln after),
            snd (processPipelines m r fp ln before) @ report
              # snd (processPipelines m r fp ln after))"
    by (simp add: assms(7) processPipelines_append one split: prod.splits)
  have "last (processRecord m r fp ln) =
           Emit (PipelineResults r fp ln (snd (processPipelines m r fp ln (pipelines m))))"
    by (simp add: processRecord_passed [OF assms(8)])
  then show ?thesis using one all by simp
qed

theorem output_isolation_witness:
  "snd (processPipelines (demo_manager [] [first_pipeline, xy_pipeline, last_pipeline])
          demo_record ''a.jsonl'' 1 [first_pipeline, xy_pipeline, last_pipeline])
   = [\<lparr>pipelineName = ''first'', success = True, filtered = Some False, error_text = None,
       outputResults = [\<lparr>outputName = ''Y'', output_success = True, output_error = None\<rparr>]\<rparr>,
      \<lparr>pipelineName = ''xy'', success = True, filtered = Some False, error_text = None,
       outputResults =
         [\<lparr>outputName = ''X'', output_success = False, output_error = Some ''disk full''\<rparr>,
          \<lparr>outputName = ''Y'', output_success = True, output_error = None\<rparr>]\<rparr>,
      \<lparr>pipelineName = ''last'', success = True, filtered = Some True, error_text = None,
       outputResults = []\<rparr>]"
  using output_isolation [where p = xy_pipeline and X = "''X''" and Y = "''Y''"
      and m = "demo_manager [] [first_pipeline, xy_pipeline, last_pipeline]"
      and ox = "\<lambda>r. Throws (ErrorObj ''disk full'')" and oy = "\<lambda>r. Returns ()"
      and r = demo_record and err = "ErrorObj ''disk full''"
      and before = "[first_pipeline]" and after = "[last_pipeline]"
      and fp = "''a.jsonl''" and ln = 1]
  by (simp add: demo_manager_def demo_outputs_def demo_filters_def xy_pipeline_def
        first_pipeline_def last_pipeline_def passes_pipeline_filter_def processPipeline_def)

text \<open>
  What the code does for the names it looks up. (1) A pipeline whose field \<open>filter\<close>
  holds a name (not the empty string) that is not registered gives a failed result for
  that pipeline, with no output entries, and the pipelines before and after it are
  evaluated as they are on their own. (2) In a pipeline whose filter lets the record
  through, an output name that is not registered gives a warning and a failed output
  entry, and the outputs before and after it are invoked as they are on their own.
\<close>

lemma missing_registration_isolated:
  "(pipeline_filter p = Some f \<and> f \<noteq> [] \<and> filters m f = None \<longrightarrow>
      processPipelines m r fp ln (before @ p # after) =
        (fst (processPipelines m r fp ln before)
           @ ConsoleError (PipelineProcessingError (pipeline_name p) (ErrorObj (filter_not_found f)))
           # fst (processPipelines m r fp ln after),
         snd (processPipelines m r fp ln before)
           @ \<lparr>pipelineName = pipeline_name p, success = False, filtered = None,
              error_text = Some (filter_not_found f), outputResults = []\<rparr>
           # snd (processPipelines m r fp ln after)))
 \<and> (passes_pipeline_filter m q r \<and> pipeline_outputs q = earlier @ n # later \<and> outputs m n = None \<longrightarrow>
      processPipeline m q r fp ln =
        (filter_trace q r
           @ fst (pipelineOutputs m (pipeline_name q) r fp ln earlier)
           @ ConsoleWarn (OutputPluginNotFound n)
           # fst (pipelineOutputs m (pipeline_name q) r fp ln later),
         Inr \<lparr>pipelineName = pipeline_name q, success = True, filtered = Some False,
              error_text = None,
              outputResults =
                snd (pipelineOutputs m (pipeline_name q) r fp ln earlier)
                @ \<lparr>outputName = n, output_success = False,
                   output_error = Some ''Output plugin not found''\<rparr>
                # snd (pipelineOutputs m (pipeline_name q) r fp ln later)\<rparr>))"
proof (intro conjI impI)
  assume a: "pipeline_filter p = Some f \<and> f \<noteq> [] \<and> filters m f = None"
  then have "processPipeline m p r fp ln = ([], Inl (ErrorObj (filter_not_found f)))"
    by (simp add: processPipeline_def split: prod.splits)
  then show "processPipelines m r fp ln (before @ p # after) =
        (fst (processPipelines m r fp ln before)
           @ ConsoleError (PipelineProcessingError (pipeline_name p) (ErrorObj (filter_not_found f)))
           # fst (processPipelines m r fp ln after),
         snd (processPipelines m r fp ln before)
           @ \<lparr>pipelineName = pipeline_name p, success = False, filtered = None,
              error_text = Some (filter_not_found f), outputResults = []\<rparr>
           # snd (processPipelines m r fp ln after))"
    by (simp add: processPipelines_append split: prod.splits)
next
  assume b: "passes_pipeline_filter m q r \<and> pipeline_outputs q = earlier @ n # later \<and> outputs m n = None"
  then have p: "passes_pipeline_filter m q r" by simp
  show "processPipeline m q r fp ln =
        (filter_trace q r
           @ fst (pipelineOutputs m (pipeline_name q) r fp ln earlier)
           @ ConsoleWarn (OutputPluginNotFound n)
           # fst (pipelineOutputs m (pipeline_name q) r fp ln later),
         Inr \<lparr>pipelineName = pipeline_name q, success = True, filtered = Some False,
              error_text = None,
              outputResults =
                snd (pipelineOutputs m (pipeline_name q) r fp ln earlier)
                @ \<lparr>outputName = n, output_success = False,
                   output_error = Some ''Output plugin not found''\<rparr>
                # snd (pipelineOutputs m (pipeline_name q) r fp ln later)\<rparr>)"
    using b by (simp add: processPipeline_passed [OF p] pipelineOutputs_append split: prod.splits)
qed

lemma missing_registration_isolated_example:
  "snd (processPipelines (demo_manager [] []) demo_record ''a.jsonl'' 1
          ([first_pipeline] @ unknown_filter_pipeline # [last_pipeline]))
   = [\<lparr>pipelineName = ''first'', success = True, filtered = Some False, error_text = None,
       outputResults = [\<lparr>outputName = ''Y'', output_success = True, output_error = None\<rparr>]\<rparr>,
      \<lparr>pipelineName = ''lost'', success = False, filtered = None,
       error_text = Some (filter_not_found ''Nope''), outputResults = []\<rparr>,
      \<lparr>pipelineName = ''last'', success = True, filtered = Some True, error_text = None,
       outputResults = []\<rparr>]
 \<and> processPipeline (demo_manager [] []) unknown_output_pipeline demo_record ''a.jsonl'' 1
   = ([FilterCall (PipelineScope ''gap'') ''B'' demo_record,
       OutputCall (PipelineScope ''gap'') ''Y'' demo_record,
       Emit (RecordOutputPipeline demo_record ''gap'' ''Y'' ''a.jsonl'' 1),
       ConsoleWarn (OutputPluginNotFound ''Nowhere''),
       OutputCall (PipelineScope ''gap'') ''Y'' demo_record,
       Emit (RecordOutputPipeline demo_record ''gap'' ''Y'' ''a.jsonl'' 1)],
      Inr \<lparr>pipelineName = ''gap'', success = True, filtered = Some False, error_text = None,
           outputResults =
             [\<lparr>outputName = ''Y'', output_success = True, output_error = None\<rparr>,
              \<lparr>outputName = ''Nowhere'', output_success = False,
               output_error = Some ''Output plugin not found''\<rparr>,
              \<lparr>outputName = ''Y'', output_success = True, output_error = None\<rparr>]\<rparr>)"
  using missing_registration_isolated [where p = unknown_filter_pipeline and f = "''Nope''"
      and m = "demo_manager [] []" and r = demo_record and fp = "''a.jsonl''" and ln = 1
      and before = "[first_pipeline]" and after = "[last_pipeline]"
      and q = unknown_output_pipeline and earlier = "[''Y'']" and n = "''Nowhere''"
      and later = "[''Y'']"]
  by (simp add: demo_manager_def demo_outputs_def demo_filters_def unknown_filter_pipeline_def
        unknown_output_pipeline_def first_pipeline_def last_pipeline_def
        passes_pipeline_filter_def filter_trace_def processPipeline_def)

text \<open>
  Claim C6 on a failing input. The pipeline \<open>lost\<close> names the filter \<open>Nope\<close>, which
  is not registered, in its list \<open>filters\<close>. \<open>processPipeline\<close> never reads that list,
  so the name is not looked up: no error is thrown or logged, the output Y is invoked,
  and the result of the pipeline is a success with \<open>filtered = false\<close> and one output
  entry, where the claim asks for a failed result. The pipelines before and after it are
  evaluated as always. This is the defect of claim C1. For a name in the field
  \<open>filter\<close> and for an output name, the code does what the claim says
  (\<open>missing_registration_isolated\<close>).
\<close>

theorem unregistered_filter_in_list_not_reported:
  "processPipelines (demo_manager [] []) demo_record ''a.jsonl'' 1
     [first_pipeline, unknown_in_list_pipeline, last_pipeline]
   = ([FilterCall (PipelineScope ''first'') ''B'' demo_record,
       OutputCall (PipelineScope ''first'') ''Y'' demo_record,
       Emit (RecordOutputPipeline demo_record ''first'' ''Y'' ''a.jsonl'' 1),
       OutputCall (PipelineScope ''lost'') ''Y'' demo_record,
       Emit (RecordOutputPipeline demo_record ''lost'' ''Y'' ''a.jsonl'' 1),
       FilterCall (PipelineScope ''last'') ''A'' demo_record,
       Emit (RecordFilteredPipeline demo_record ''last'' ''A'' ''a.jsonl'' 1)],
      [\<lparr>pipelineName = ''first'', success = True, filtered = Some False, error_text = None,
        outputResults = [\<lparr>outputName = ''Y'', output_success = True, output_error = None\<rparr>]\<rparr>,
       \<lparr>pipelineName = ''lost'', success = True, filtered = Some False, error_text = None,
        outputResults = [\<lparr>outputName = ''Y'', output_success = True, output_error = None\<rparr>]\<rparr>,
       \<lparr>pipelineName = ''last'', success = True, filtered = Some True, error_text = None,
        outputResults = []\<rparr>])"
  by (simp add: processPipeline_def demo_manager_def demo_outputs_def demo_filters_def
        first_pipeline_def unknown_in_list_pipeline_def last_pipeline_def)

text \<open>
  Claim C10. If a registered global filter throws for a record, the record is rejected
  like one the filter returned false for: the only event of \<open>processRecord\<close> is the
  filtered-global event, so no pipeline-results report carries the error; no filter is
  called for a pipeline and no output is invoked.
\<close>

theorem global_filter_failure_rejects:
  assumes "n \<in> set (globalFilters m)" and "filters m n = Some f" and "f r = Throws err"
  shows "emitted (processRecord m r filePath lineNumber)
           = [RecordFilteredGlobal r filePath lineNumber]
       \<and> (\<forall>e \<in> set (processRecord m r filePath lineNumber).
             \<not> is_output_call e \<and> \<not> is_pipeline_filter_call e)"
proof -
  have "f r \<noteq> Returns True" using assms(3) by simp
  then have "\<not> snd (applyGlobalFilters m r (globalFilters m))"
    using assms(1,2) applyGlobalFilters_rejects [of n "globalFilters m" m f r] by simp
  then show ?thesis by (rule processRecord_rejected)
qed

theorem global_filter_failure_rejects_witness:
  "processRecord (demo_manager [''T''] [xy_pipeline]) demo_record ''a.jsonl'' 1
     = [FilterCall GlobalScope ''T'' demo_record,
        ConsoleError (GlobalFilterError ''T'' (ErrorObj ''boom'')),
        Emit (RecordFilteredGlobal demo_record ''a.jsonl'' 1)]
   \<and> emitted (processRecord (demo_manager [''T''] [xy_pipeline]) demo_record ''a.jsonl'' 1)
       = [RecordFilteredGlobal demo_record ''a.jsonl'' 1]
   \<and> filter (\<lambda>e. is_output_call e \<or> is_pipeline_filter_call e)
         (processRecord (demo_manager [''T''] [xy_pipeline]) demo_record ''a.jsonl'' 1) = []"
  using global_filter_failure_rejects [of "''T''" "demo_manager [''T''] [xy_pipeline]"
      "\<lambda>r. Throws (ErrorObj ''boom'')" demo_record "ErrorObj ''boom''" "''a.jsonl''" 1]
  by (simp add: demo_manager_def demo_filters_def processRecord_def filter_empty_conv)

section \<open>The stream processor: lemmas\<close>

lemma parse_attempts_append: "parse_attempts (xs @ ys) = parse_attempts xs @ parse_attempts ys"
  by (induction xs rule: parse_attempts.induct) simp_all

lemma bytes_read_append: "bytes_read (xs @ ys) = bytes_read xs @ bytes_read ys"
  by (induction xs rule: bytes_read.induct) simp_all

lemma parse_attempts_forward: "parse_attempts (concat (map forward es)) = []"
proof (induction es)
  case Nil
  then show ?case by simp
next
  case (Cons e es)
  then show ?case by (cases e) (simp_all add: parse_attempts_append)
qed

lemma bytes_read_forward: "bytes_read (concat (map forward es)) = []"
proof (induction es)
  case Nil
  then show ?case by simp
next
  case (Cons e es)
  then show ?case by (cases e) (simp_all add: bytes_read_append)
qed

lemma parse_attempts_processLines:
  "parse_attempts (processLines M parse p n ls) = filter (\<lambda>line. \<not> is_blank line) ls"
  by (induction ls arbitrary: n)
     (auto simp: parse_attempts_append processor_processRecord_def parse_attempts_forward
           split: outcome.splits)

lemma bytes_read_processLines: "bytes_read (processLines M parse p n ls) = []"
  by (induction ls arbitrary: n)
     (auto simp: bytes_read_append processor_processRecord_def bytes_read_forward
           split: outcome.splits)

lemma nonblank_lines_Nil: "nonblank_lines [] = []"
  by (simp add: nonblank_lines_def readline_lines_def)

text \<open>The three branches of \<open>processFileWithBuffering\<close> for a file that exists.\<close>

lemma processFileWithBuffering_new_data:
  assumes "fsStat p = Some statContent" and "fsRead p = Some content"
    and "getFilePosition st p < length statContent"
  shows "processFileWithBuffering M parse fsStat fsRead st p =
     (st\<lparr>filePositions := (filePositions st)(p \<mapsto> length statContent)\<rparr>,
      [Stat p, PConsoleLog (BufferedRead p (getFilePosition st p) (length statContent)),
       ReadStream p (getFilePosition st p) (drop (getFilePosition st p) content)]
      @ processLines M parse p (getLineNumberFromPosition (getFilePosition st p))
          (readline_lines (drop (getFilePosition st p) content)),
      None)"
  using assms by (simp add: processFileWithBuffering_def Let_def)

lemma processFileWithBuffering_no_data:
  assumes "fsStat p = Some statContent" and "getFilePosition st p = length statContent"
  shows "processFileWithBuffering M parse fsStat fsRead st p
     = (st, [Stat p, PConsoleLog (NoNewData p)], None)"
  using assms by (simp add: processFileWithBuffering_def Let_def)

lemma processFileWithBuffering_truncated:
  assumes "fsStat p = Some statContent" and "fsRead p = Some content"
    and "length statContent < getFilePosition st p"
  shows "processFileWithBuffering M parse fsStat fsRead st p =
     (st\<lparr>filePositions := (filePositions st)(p \<mapsto> 0)\<rparr>,
      Stat p # PConsoleLog (FileTruncated p) # ReadStream p 0 content
        # processLines M parse p 0 (readline_lines content),
      None)"
  using assms by (simp add: processFileWithBuffering_def processFileComplete_def Let_def)

text \<open>
  A buffered read of a file that has not shrunk: the offset stored is the size that
  \<open>stat\<close> saw, the bytes delivered are those of the file the stream reads, from the old
  offset on.
\<close>

lemma buffered_read_facts:
  assumes "fsStat p = Some statContent" and "fsRead p = Some content"
    and "getFilePosition st p \<le> length statContent"
    and "processFileWithBuffering M parse fsStat fsRead st p = (st', es, err)"
  shows "getFilePosition st' p = length statContent
       \<and> bytes_read es = (if length statContent = getFilePosition st p then []
                          else drop (getFilePosition st p) content)
       \<and> parse_attempts es = nonblank_lines (bytes_read es)
       \<and> err = None
       \<and> isProcessing st' = isProcessing st \<and> enableBuffering st' = enableBuffering st
       \<and> (length statContent = getFilePosition st p \<longrightarrow> st' = st)"
proof (cases "getFilePosition st p = length statContent")
  case True
  have r: "(st', es, err) = (st, [Stat p, PConsoleLog (NoNewData p)], None)"
    using processFileWithBuffering_no_data [where fsStat=fsStat and fsRead=fsRead and p=p
        and statContent=statContent and st=st and M=M and parse=parse]
      assms(1,4) True by simp
  show ?thesis
    using r True by (simp add: nonblank_lines_Nil)
next
  case False
  then have lt: "getFilePosition st p < length statContent" using assms(3) by simp
  have r: "(st', es, err) =
     (st\<lparr>filePositions := (filePositions st)(p \<mapsto> length statContent)\<rparr>,
      [Stat p, PConsoleLog (BufferedRead p (getFilePosition st p) (length statContent)),
       ReadStream p (getFilePosition st p) (drop (getFilePosition st p) content)]
      @ processLines M parse p (getLineNumberFromPosition (getFilePosition st p))
          (readline_lines (drop (getFilePosition st p) content)),
      None)"
    using processFileWithBuffering_new_data [where fsStat=fsStat and fsRead=fsRead and p=p
        and statContent=statContent and content=content and st=st and M=M and parse=parse]
      assms(1,2,4) lt by simp
  have st': "st' = st\<lparr>filePositions := (filePositions st)(p \<mapsto> length statContent)\<rparr>"
    using r by simp
  have es: "es = [Stat p, PConsoleLog (BufferedRead p (getFilePosition st p) (length statContent)),
       ReadStream p (getFilePosition st p) (drop (getFilePosition st p) content)]
      @ processLines M parse p (getLineNumberFromPosition (getFilePosition st p))
          (readline_lines (drop (getFilePosition st p) content))"
    using r by simp
  have 1: "getFilePosition st' p = length statContent"
    by (simp add: st' getFilePosition_def)
  have 2: "bytes_read es = drop (getFilePosition st p) content"
    by (simp add: es bytes_read_append bytes_read_processLines)
  have 3: "parse_attempts es = nonblank_lines (bytes_read es)"
    unfolding 2
    by (simp add: es parse_attempts_append parse_attempts_processLines nonblank_lines_def)
  have 4: "err = None" using r by simp
  have 5: "isProcessing st' = isProcessing st \<and> enableBuffering st' = enableBuffering st"
    by (simp add: st')
  have ne: "length statContent \<noteq> getFilePosition st p" using False by simp
  show ?thesis using 1 2 3 4 5 ne by simp
qed


lemma truncated_read_facts:
  assumes "fs p = Some content" and "length content < getFilePosition st p"
    and "processFileWithBuffering M parse fs fs st p = (st', es, err)"
  shows "getFilePosition st' p = 0 \<and> bytes_read es = content
       \<and> parse_attempts es = nonblank_lines content \<and> err = None
       \<and> isProcessing st' = isProcessing st \<and> enableBuffering st' = enableBuffering st"
  using processFileWithBuffering_truncated [where fsStat=fs and fsRead=fs and p=p
      and statContent=content and content=content and st=st and M=M and parse=parse] assms
  by (auto simp: getFilePosition_def nonblank_lines_def parse_attempts_processLines
        bytes_read_processLines)

text \<open>\<open>processFile\<close> on a processor that is idle and has buffering enabled.\<close>

lemma processFile_idle_buffering:
  assumes "enableBuffering st" and "\<not> isProcessing st"
    and "processFileWithBuffering M parse fsStat fsRead (st\<lparr>isProcessing := True\<rparr>) p
           = (st2, es2, None)"
  shows "processFile M parse fsStat fsRead st p =
     (st2\<lparr>isProcessing := False\<rparr>,
      PEmit (ProcessingStart p) # es2 @ [PEmit (ProcessingComplete p)])"
  using assms by (simp add: processFile_def processFile_body_def)

lemma processFile_buffered:
  assumes "enableBuffering st" and "\<not> isProcessing st"
    and "fsStat p = Some statContent" and "fsRead p = Some content"
    and "getFilePosition st p \<le> length statContent"
    and "processFile M parse fsStat fsRead st p = (st', es)"
  shows "getFilePosition st' p = length statContent
       \<and> bytes_read es = (if length statContent = getFilePosition st p then []
                          else drop (getFilePosition st p) content)
       \<and> parse_attempts es = nonblank_lines (bytes_read es)
       \<and> \<not> isProcessing st' \<and> enableBuffering st'
       \<and> (length statContent = getFilePosition st p \<longrightarrow>
            parse_attempts es = [] \<and> filePositions st' = filePositions st)"
proof -
  let ?st1 = "st\<lparr>isProcessing := True\<rparr>"
  obtain st2 es2 err where
    w: "processFileWithBuffering M parse fsStat fsRead ?st1 p = (st2, es2, err)"
    by (cases "processFileWithBuffering M parse fsStat fsRead ?st1 p") auto
  have pos: "getFilePosition ?st1 p = getFilePosition st p"
    by (simp add: getFilePosition_def)
  have le: "getFilePosition ?st1 p \<le> length statContent"
    using assms(5) pos by simp
  note facts = buffered_read_facts [where fsStat=fsStat and fsRead=fsRead and p=p
      and statContent=statContent and content=content and st="?st1" and M=M and parse=parse
      and st'=st2 and es=es2 and err=err, OF assms(3) assms(4) le w]
  from facts have err: "err = None" by blast
  from facts have p2: "getFilePosition st2 p = length statContent" by blast
  from facts have b2: "bytes_read es2 = (if length statContent = getFilePosition st p then []
                          else drop (getFilePosition st p) content)"
    unfolding pos by blast
  from facts have a2: "parse_attempts es2 = nonblank_lines (bytes_read es2)" by blast
  from facts have e2: "enableBuffering st2 = enableBuffering ?st1" by blast
  from facts have same: "length statContent = getFilePosition st p \<longrightarrow> st2 = ?st1"
    unfolding pos by blast
  have res: "(st', es) =
     (st2\<lparr>isProcessing := False\<rparr>,
      PEmit (ProcessingStart p) # es2 @ [PEmit (ProcessingComplete p)])"
    using processFile_idle_buffering [OF assms(1) assms(2) w [unfolded err]] assms(6) by simp
  have st': "st' = st2\<lparr>isProcessing := False\<rparr>" using res by simp
  have es: "es = PEmit (ProcessingStart p) # es2 @ [PEmit (ProcessingComplete p)]"
    using res by simp
  have be: "bytes_read es = bytes_read es2" by (simp add: es bytes_read_append)
  have ae: "parse_attempts es = parse_attempts es2" by (simp add: es parse_attempts_append)
  have 1: "getFilePosition st' p = length statContent"
    using p2 by (simp add: st' getFilePosition_def)
  have 2: "bytes_read es = (if length statContent = getFilePosition st p then []
                          else drop (getFilePosition st p) content)"
    unfolding be by (rule b2)
  have 3: "parse_attempts es = nonblank_lines (bytes_read es)"
    unfolding be ae by (rule a2)
  have 4: "\<not> isProcessing st'" by (simp add: st')
  have 5: "enableBuffering st'" using e2 assms(1) by (simp add: st')
  have 6: "length statContent = getFilePosition st p \<longrightarrow>
             parse_attempts es = [] \<and> filePositions st' = filePositions st"
  proof
    assume eq: "length statContent = getFilePosition st p"
    then have "st2 = ?st1" using same by simp
    then have "filePositions st' = filePositions st" by (simp add: st')
    moreover have "bytes_read es = []" unfolding 2 using eq by simp
    then have "parse_attempts es = []"
      unfolding 3 by (simp add: nonblank_lines_Nil)
    ultimately show "parse_attempts es = [] \<and> filePositions st' = filePositions st" by simp
  qed
  show ?thesis using 1 2 3 4 5 6 by blast
qed

text \<open>
  Every read of a session of appends satisfies \<open>read_ok\<close>, whether or not something is
  written while it runs; and when nothing is, the reads together deliver the content of
  the file from the first stored offset on, each byte once.
\<close>

lemma tail_session_reads_ok:
  assumes "enableBuffering st" and "\<not> isProcessing st" and "getFilePosition st p \<le> length content"
  shows "list_all (read_ok p) (tail_session M parse p content st appends)"
  using assms
proof (induction appends arbitrary: content st)
  case Nil
  then show ?case by simp
next
  case (Cons x rest)
  obtain a d where x: "x = (a, d)" by (cases x) auto
  obtain st' es where run:
    "processFile M parse [p \<mapsto> content @ a] [p \<mapsto> content @ a @ d] st p = (st', es)"
    by (cases "processFile M parse [p \<mapsto> content @ a] [p \<mapsto> content @ a @ d] st p") auto
  have le: "getFilePosition st p \<le> length (content @ a)"
    using Cons.prems(3) by simp
  have l1: "[p \<mapsto> content @ a] p = Some (content @ a)" by simp
  have l2: "[p \<mapsto> content @ a @ d] p = Some (content @ a @ d)" by simp
  note step = processFile_buffered [where fsStat="[p \<mapsto> content @ a]"
      and fsRead="[p \<mapsto> content @ a @ d]" and p=p and statContent="content @ a"
      and content="content @ a @ d" and st=st and M=M and parse=parse and st'=st' and es=es,
      OF Cons.prems(1) Cons.prems(2) l1 l2 le run]
  from step have pos': "getFilePosition st' p = length (content @ a)" by blast
  from step have np: "\<not> isProcessing st'" by blast
  from step have eb: "enableBuffering st'" by blast
  from step have pa: "parse_attempts es = nonblank_lines (bytes_read es)" by blast
  from step have same: "length (content @ a) = getFilePosition st p \<longrightarrow>
            parse_attempts es = [] \<and> filePositions st' = filePositions st" by blast
  have le': "getFilePosition st' p \<le> length (content @ a @ d)" using pos' by simp
  note ih = Cons.IH [OF eb np le']
  have unfold: "tail_session M parse p content st (x # rest)
      = (st, content @ a, st', es) # tail_session M parse p (content @ a @ d) st' rest"
    by (simp add: x run)
  have first: "read_ok p (st, content @ a, st', es)"
    unfolding read_ok_def using pos' le pa same by simp
  show ?case unfolding unfold using first ih by simp
qed

lemma quiet_session_bytes:
  assumes "enableBuffering st" and "\<not> isProcessing st" and "getFilePosition st p \<le> length content"
    and "list_all (\<lambda>x. snd x = []) appends"
  shows "session_bytes (tail_session M parse p content st appends)
           = (if appends = [] then []
              else drop (getFilePosition st p) (content @ concat (map fst appends)))"
  using assms
proof (induction appends arbitrary: content st)
  case Nil
  then show ?case by (simp add: session_bytes_def)
next
  case (Cons x rest)
  obtain a where x: "x = (a, [])" using Cons.prems(4) by (cases x) auto
  have quiet: "list_all (\<lambda>x. snd x = []) rest" using Cons.prems(4) by simp
  obtain st' es where run:
    "processFile M parse [p \<mapsto> content @ a] [p \<mapsto> content @ a] st p = (st', es)"
    by (cases "processFile M parse [p \<mapsto> content @ a] [p \<mapsto> content @ a] st p") auto
  have le: "getFilePosition st p \<le> length (content @ a)"
    using Cons.prems(3) by simp
  have l1: "[p \<mapsto> content @ a] p = Some (content @ a)" by simp
  note step = processFile_buffered [where fsStat="[p \<mapsto> content @ a]"
      and fsRead="[p \<mapsto> content @ a]" and p=p and statContent="content @ a"
      and content="content @ a" and st=st and M=M and parse=parse and st'=st' and es=es,
      OF Cons.prems(1) Cons.prems(2) l1 l1 le run]
  from step have pos': "getFilePosition st' p = length (content @ a)" by blast
  from step have np: "\<not> isProcessing st'" by blast
  from step have eb: "enableBuffering st'" by blast
  from step have "bytes_read es = (if length (content @ a) = getFilePosition st p then []
      else drop (getFilePosition st p) (content @ a))" by blast
  then have bytes: "bytes_read es = drop (getFilePosition st p) (content @ a)" by simp
  have le': "getFilePosition st' p \<le> length (content @ a)" using pos' by simp
  note ih = Cons.IH [OF eb np le' quiet]
  have unfold: "tail_session M parse p content st (x # rest)
      = (st, content @ a, st', es) # tail_session M parse p (content @ a) st' rest"
    by (simp add: x run)
  have rest_bytes: "session_bytes (tail_session M parse p (content @ a) st' rest)
      = concat (map fst rest)"
  proof (cases rest)
    case Nil
    then show ?thesis by (simp add: session_bytes_def)
  next
    case (Cons y ys)
    then have "session_bytes (tail_session M parse p (content @ a) st' rest)
        = drop (getFilePosition st' p) ((content @ a) @ concat (map fst rest))"
      using ih by simp
    also have "\<dots> = concat (map fst rest)" unfolding pos' by simp
    finally show ?thesis .
  qed
  have "session_bytes (tail_session M parse p content st (x # rest))
      = bytes_read es @ session_bytes (tail_session M parse p (content @ a) st' rest)"
    unfolding unfold by (simp add: session_bytes_def)
  also have "\<dots> = drop (getFilePosition st p) (content @ a) @ concat (map fst rest)"
    unfolding rest_bytes bytes ..
  also have "\<dots> = drop (getFilePosition st p) (content @ concat (map fst (x # rest)))"
    using Cons.prems(3) by (simp add: x)
  finally show ?case by simp
qed






text \<open>The guard of \<open>processFile\<close> in the model of overlapping calls.\<close>

lemma processFile_body_clears_flag:
  "\<not> isProcessing (fst (processFile_body M parse fsStat fsRead st p))"
  by (simp add: processFile_body_def split: prod.splits)

lemma step_keeps_guard:
  assumes "isProcessing (proc sys) \<longleftrightarrow> inflight sys \<noteq> []" and "length (inflight sys) \<le> 1"
  shows "(isProcessing (proc (fst (step M parse sys a))) \<longleftrightarrow> inflight (fst (step M parse sys a)) \<noteq> [])
       \<and> length (inflight (fst (step M parse sys a))) \<le> 1"
proof (cases a)
  case (Call p)
  then show ?thesis using assms by auto
next
  case (Complete p fsStat fsRead)
  show ?thesis
  proof (cases "p \<in> set (inflight sys)")
    case True
    then have one: "inflight sys = [p]"
      using assms(2) by (cases "inflight sys") auto
    show ?thesis
      using True one processFile_body_clears_flag [of M parse fsStat fsRead "proc sys" p]
      by (auto simp: Complete split: prod.splits)
  next
    case False
    then show ?thesis using assms by (simp add: Complete)
  qed
qed

lemma run_keeps_guard:
  assumes "isProcessing (proc sys) \<longleftrightarrow> inflight sys \<noteq> []" and "length (inflight sys) \<le> 1"
  shows "(isProcessing (proc (fst (run M parse sys acts))) \<longleftrightarrow> inflight (fst (run M parse sys acts)) \<noteq> [])
       \<and> length (inflight (fst (run M parse sys acts))) \<le> 1"
  using assms
proof (induction acts arbitrary: sys)
  case Nil
  then show ?case by simp
next
  case (Cons a acts)
  note k = step_keeps_guard [OF Cons.prems(1) Cons.prems(2), of M parse a]
  from k have k1: "isProcessing (proc (fst (step M parse sys a)))
      \<longleftrightarrow> inflight (fst (step M parse sys a)) \<noteq> []" by blast
  from k have k2: "length (inflight (fst (step M parse sys a))) \<le> 1" by blast
  have "fst (run M parse sys (a # acts)) = fst (run M parse (fst (step M parse sys a)) acts)"
    by (simp split: prod.splits)
  then show ?case using Cons.IH [OF k1 k2] by simp
qed

lemma processFile_as_steps:
  assumes "\<not> isProcessing st"
  shows "run M parse \<lparr>proc = st, inflight = []\<rparr> [Call p, Complete p fsStat fsRead]
     = (\<lparr>proc = fst (processFile M parse fsStat fsRead st p), inflight = []\<rparr>,
        snd (processFile M parse fsStat fsRead st p))"
  using assms by (simp add: processFile_def split: prod.splits)

section \<open>The stream processor: claims\<close>




text \<open>
  Claim C3 on a failing input. The stored offset of \<open>a.jsonl\<close> is 20 and the file has
  been rewritten to one line of 8 bytes. The next read resets the offset to 0 and parses
  the line, and leaves the offset at 0 when it is done. After a second line has been
  appended, the read that follows starts at byte 0 and parses the first line a second
  time. (Nothing is written while a read runs.)
\<close>

theorem truncation_read_repeats_records:
  \<open>getFilePosition (fst (processFile (demo_manager [] []) demo_parse
       [''a.jsonl'' \<mapsto> rewritten_content] [''a.jsonl'' \<mapsto> rewritten_content]
       read_to_20 ''a.jsonl'')) ''a.jsonl'' = 0
   \<and> parse_attempts (snd (processFile (demo_manager [] []) demo_parse
       [''a.jsonl'' \<mapsto> rewritten_content] [''a.jsonl'' \<mapsto> rewritten_content]
       read_to_20 ''a.jsonl'')) = [''{"x":1}'']
   \<and> parse_attempts (snd (processFile (demo_manager [] []) demo_parse
       [''a.jsonl'' \<mapsto> rewritten_content @ rewritten_appended]
       [''a.jsonl'' \<mapsto> rewritten_content @ rewritten_appended]
       (fst (processFile (demo_manager [] []) demo_parse
          [''a.jsonl'' \<mapsto> rewritten_content] [''a.jsonl'' \<mapsto> rewritten_content]
          read_to_20 ''a.jsonl''))
       ''a.jsonl'')) = [''{"x":1}'', ''{"x":2}'']\<close>
proof -
  let ?M = "demo_manager [] [] :: string manager"
  let ?busy = "read_to_20\<lparr>isProcessing := True\<rparr>"
  let ?fs1 = "[''a.jsonl'' \<mapsto> rewritten_content]"
  let ?fs2 = "[''a.jsonl'' \<mapsto> rewritten_content @ rewritten_appended]"
  let ?w1 = "processFileWithBuffering ?M demo_parse ?fs1 ?fs1 ?busy ''a.jsonl''"
  have len: "length rewritten_content = 8"
    by (simp add: rewritten_content_def)
  have pos: "getFilePosition ?busy ''a.jsonl'' = 20"
    by (simp add: getFilePosition_def read_to_20_def)
  have t: "getFilePosition (fst ?w1) ''a.jsonl'' = 0 \<and> bytes_read (fst (snd ?w1)) = rewritten_content
       \<and> parse_attempts (fst (snd ?w1)) = nonblank_lines rewritten_content
       \<and> snd (snd ?w1) = None
       \<and> isProcessing (fst ?w1) = isProcessing ?busy
       \<and> enableBuffering (fst ?w1) = enableBuffering ?busy"
    by (rule truncated_read_facts [where fs = "?fs1"])
       (simp_all add: len pos)
  have idle: "enableBuffering read_to_20" "\<not> isProcessing read_to_20"
    by (simp_all add: read_to_20_def)
  have w1: "?w1 = (fst ?w1, fst (snd ?w1), None)"
    using t by (metis prod.collapse)
  let ?st1 = "(fst ?w1)\<lparr>isProcessing := False\<rparr>"
  have first: "processFile ?M demo_parse ?fs1 ?fs1 read_to_20 ''a.jsonl''
      = (?st1, PEmit (ProcessingStart ''a.jsonl'') # fst (snd ?w1)
           @ [PEmit (ProcessingComplete ''a.jsonl'')])"
    by (rule processFile_idle_buffering [OF idle w1])
  have pos1: "getFilePosition ?st1 ''a.jsonl'' = 0"
    using t by (simp add: getFilePosition_def)
  have lines1: \<open>nonblank_lines rewritten_content = [''{"x":1}'']\<close>
    by (simp add: nonblank_lines_def readline_lines_def rewritten_content_def LF_def CR_def
          is_blank_def is_space_def)
  have lines2: \<open>nonblank_lines (rewritten_content @ rewritten_appended)
      = [''{"x":1}'', ''{"x":2}'']\<close>
    by (simp add: nonblank_lines_def readline_lines_def rewritten_content_def
          rewritten_appended_def LF_def CR_def is_blank_def is_space_def)
  have idle1: "enableBuffering ?st1" "\<not> isProcessing ?st1"
    using t idle by simp_all
  let ?second = "processFile ?M demo_parse ?fs2 ?fs2 ?st1 ''a.jsonl''"
  have le: "getFilePosition ?st1 ''a.jsonl'' \<le> length (rewritten_content @ rewritten_appended)"
    using pos1 by simp
  have lookup: "?fs2 ''a.jsonl'' = Some (rewritten_content @ rewritten_appended)" by simp
  have collapse: "?second = (fst ?second, snd ?second)" by simp
  note second = processFile_buffered [where fsStat="?fs2" and fsRead="?fs2"
      and p="''a.jsonl''" and statContent="rewritten_content @ rewritten_appended"
      and content="rewritten_content @ rewritten_appended" and st="?st1" and M="?M"
      and parse=demo_parse and st'="fst ?second" and es="snd ?second",
      OF idle1 lookup lookup le collapse]
  from second have "bytes_read (snd ?second)
      = (if length (rewritten_content @ rewritten_appended) = getFilePosition ?st1 ''a.jsonl''
         then [] else drop (getFilePosition ?st1 ''a.jsonl'')
           (rewritten_content @ rewritten_appended))"
    by blast
  then have b: "bytes_read (snd ?second) = rewritten_content @ rewritten_appended"
    unfolding pos1 by (simp add: len)
  from second have a: "parse_attempts (snd ?second) = nonblank_lines (bytes_read (snd ?second))"
    by blast
  have again: \<open>parse_attempts (snd ?second) = [''{"x":1}'', ''{"x":2}'']\<close>
    unfolding a b using lines2 by simp
  have once: \<open>parse_attempts (snd (processFile ?M demo_parse ?fs1 ?fs1
       read_to_20 ''a.jsonl'')) = [''{"x":1}'']\<close>
    unfolding first using t lines1 by (simp add: parse_attempts_append)
  show ?thesis
    unfolding first using pos1 once [unfolded first] again by simp
qed

text \<open>
  Claim C7 on a failing input. Buffering is enabled and nothing of \<open>a.jsonl\<close> has been
  read. The file holds one line of 8 bytes when the read calls \<open>stat\<close>; a second line is
  appended before the stream reaches the end of the file. The stream has no end bound,
  so the read parses both lines, and it stores the size that \<open>stat\<close> saw, 8. The next
  read, with nothing more appended, starts at byte 8 and parses the second line again.
  The rest of the claim holds of every read (\<open>tail_session_reads_ok\<close>), and no byte is
  delivered twice when nothing is written while a read runs (\<open>quiet_session_bytes\<close>).
\<close>

theorem append_during_read_parsed_twice:
  \<open>parse_attempts (snd (processFile (demo_manager [] []) demo_parse
       [''a.jsonl'' \<mapsto> first_line] [''a.jsonl'' \<mapsto> first_line @ second_line]
       fresh_state ''a.jsonl'')) = [''{"x":1}'', ''{"x":2}'']
   \<and> getFilePosition (fst (processFile (demo_manager [] []) demo_parse
       [''a.jsonl'' \<mapsto> first_line] [''a.jsonl'' \<mapsto> first_line @ second_line]
       fresh_state ''a.jsonl'')) ''a.jsonl'' = 8
   \<and> parse_attempts (snd (processFile (demo_manager [] []) demo_parse
       [''a.jsonl'' \<mapsto> first_line @ second_line] [''a.jsonl'' \<mapsto> first_line @ second_line]
       (fst (processFile (demo_manager [] []) demo_parse
          [''a.jsonl'' \<mapsto> first_line] [''a.jsonl'' \<mapsto> first_line @ second_line]
          fresh_state ''a.jsonl''))
       ''a.jsonl'')) = [''{"x":2}'']\<close>
proof -
  let ?M = "demo_manager [] [] :: string manager"
  let ?fsStat = "[''a.jsonl'' \<mapsto> first_line]"
  let ?fsRead = "[''a.jsonl'' \<mapsto> first_line @ second_line]"
  let ?first = "processFile ?M demo_parse ?fsStat ?fsRead fresh_state ''a.jsonl''"
  let ?second = "processFile ?M demo_parse ?fsRead ?fsRead (fst ?first) ''a.jsonl''"
  have len: "length first_line = 8"
    by (simp add: first_line_def)
  have start: "getFilePosition fresh_state ''a.jsonl'' = 0"
    by (simp add: getFilePosition_def fresh_state_def)
  have idle: "enableBuffering fresh_state" "\<not> isProcessing fresh_state"
    by (simp_all add: fresh_state_def)
  have l1: "?fsStat ''a.jsonl'' = Some first_line" by simp
  have l2: "?fsRead ''a.jsonl'' = Some (first_line @ second_line)" by simp
  have le: "getFilePosition fresh_state ''a.jsonl'' \<le> length first_line"
    using start by simp
  have c1: "?first = (fst ?first, snd ?first)" by simp
  note r1 = processFile_buffered [where fsStat="?fsStat" and fsRead="?fsRead"
      and p="''a.jsonl''" and statContent=first_line and content="first_line @ second_line"
      and st=fresh_state and M="?M" and parse=demo_parse
      and st'="fst ?first" and es="snd ?first",
      OF idle l1 l2 le c1]
  from r1 have pos1: "getFilePosition (fst ?first) ''a.jsonl'' = length first_line" by blast
  from r1 have idle1: "enableBuffering (fst ?first)" "\<not> isProcessing (fst ?first)"
    by blast+
  from r1 have "bytes_read (snd ?first)
      = (if length first_line = getFilePosition fresh_state ''a.jsonl'' then []
         else drop (getFilePosition fresh_state ''a.jsonl'') (first_line @ second_line))"
    by blast
  then have b1: "bytes_read (snd ?first) = first_line @ second_line"
    unfolding start by (simp add: len)
  from r1 have a1: "parse_attempts (snd ?first) = nonblank_lines (bytes_read (snd ?first))"
    by blast
  have le2: "getFilePosition (fst ?first) ''a.jsonl'' \<le> length (first_line @ second_line)"
    using pos1 by simp
  have c2: "?second = (fst ?second, snd ?second)" by simp
  note r2 = processFile_buffered [where fsStat="?fsRead" and fsRead="?fsRead"
      and p="''a.jsonl''" and statContent="first_line @ second_line"
      and content="first_line @ second_line"
      and st="fst ?first" and M="?M" and parse=demo_parse
      and st'="fst ?second" and es="snd ?second",
      OF idle1 l2 l2 le2 c2]
  from r2 have "bytes_read (snd ?second)
      = (if length (first_line @ second_line) = getFilePosition (fst ?first) ''a.jsonl''
         then [] else drop (getFilePosition (fst ?first) ''a.jsonl'')
           (first_line @ second_line))"
    by blast
  then have b2: "bytes_read (snd ?second) = second_line"
    unfolding pos1 by (simp add: second_line_def)
  from r2 have a2: "parse_attempts (snd ?second) = nonblank_lines (bytes_read (snd ?second))"
    by blast
  have lines1: \<open>nonblank_lines (first_line @ second_line) = [''{"x":1}'', ''{"x":2}'']\<close>
    by (simp add: nonblank_lines_def readline_lines_def first_line_def second_line_def
          LF_def CR_def is_blank_def is_space_def)
  have lines2: \<open>nonblank_lines second_line = [''{"x":2}'']\<close>
    by (simp add: nonblank_lines_def readline_lines_def second_line_def
          LF_def CR_def is_blank_def is_space_def)
  have p1: \<open>parse_attempts (snd ?first) = [''{"x":1}'', ''{"x":2}'']\<close>
    unfolding a1 b1 by (rule lines1)
  have p2: \<open>parse_attempts (snd ?second) = [''{"x":2}'']\<close>
    unfolding a2 b2 by (rule lines2)
  have p3: "getFilePosition (fst ?first) ''a.jsonl'' = 8"
    using pos1 len by simp
  show ?thesis using p1 p2 p3 by blast
qed

text \<open>
  Claim C9. From an idle processor, after any sequence of arriving calls and finishing
  passes, at most one call is past the guard. While one is, a call that arrives changes
  nothing (no offset, no flag), does nothing but warn (it calls no \<open>stat\<close> and opens no
  stream), and leaves no trace in the state: what follows runs as if the call had never
  arrived, so it is not executed later.
\<close>

theorem single_pass_in_flight:
  assumes "\<not> isProcessing st0"
    and "run M parse \<lparr>proc = st0, inflight = []\<rparr> acts = (sys, es)"
  shows "length (inflight sys) \<le> 1
       \<and> (inflight sys \<noteq> [] \<longrightarrow>
            step M parse sys (Call p) = (sys, [PConsoleWarn (AlreadyProcessing p)])
          \<and> run M parse sys (Call p # afterwards)
              = (fst (run M parse sys afterwards),
                 PConsoleWarn (AlreadyProcessing p) # snd (run M parse sys afterwards)))"
proof -
  have sys: "sys = fst (run M parse \<lparr>proc = st0, inflight = []\<rparr> acts)"
    using assms(2) by simp
  have g: "(isProcessing (proc sys) \<longleftrightarrow> inflight sys \<noteq> []) \<and> length (inflight sys) \<le> 1"
    unfolding sys
    by (rule run_keeps_guard) (simp_all add: assms(1))
  have "inflight sys \<noteq> [] \<longrightarrow>
            step M parse sys (Call p) = (sys, [PConsoleWarn (AlreadyProcessing p)])
          \<and> run M parse sys (Call p # afterwards)
              = (fst (run M parse sys afterwards),
                 PConsoleWarn (AlreadyProcessing p) # snd (run M parse sys afterwards))"
    using g by (auto split: prod.splits)
  then show ?thesis using g by blast
qed

theorem single_pass_in_flight_witness:
  "inflight (fst (run (demo_manager [] []) demo_parse \<lparr>proc = fresh_state, inflight = []\<rparr>
       [Call ''a.jsonl'', Call ''b.jsonl''])) = [''a.jsonl'']
   \<and> step (demo_manager [] []) demo_parse
       (fst (run (demo_manager [] []) demo_parse \<lparr>proc = fresh_state, inflight = []\<rparr>
          [Call ''a.jsonl'', Call ''b.jsonl'']))
       (Call ''c.jsonl'')
     = (fst (run (demo_manager [] []) demo_parse \<lparr>proc = fresh_state, inflight = []\<rparr>
          [Call ''a.jsonl'', Call ''b.jsonl'']),
        [PConsoleWarn (AlreadyProcessing ''c.jsonl'')])"
  using single_pass_in_flight [where ?st0.0 = fresh_state and M = "demo_manager [] []"
      and parse = demo_parse and acts = "[Call ''a.jsonl'', Call ''b.jsonl'']"
      and sys = "fst (run (demo_manager [] []) demo_parse \<lparr>proc = fresh_state, inflight = []\<rparr>
          [Call ''a.jsonl'', Call ''b.jsonl''])"
      and es = "snd (run (demo_manager [] []) demo_parse \<lparr>proc = fresh_state, inflight = []\<rparr>
          [Call ''a.jsonl'', Call ''b.jsonl''])"
      and p = "''c.jsonl''" and afterwards = "[]"]
  by (simp add: fresh_state_def)

section \<open>The server: start and stop\<close>

lemma start_when_stopped:
  assumes "\<not> isRunning s" and "existsSync (watchDirectory s)"
  shows "fst (start existsSync s) = Inr () \<and> isRunning (fst (snd (start existsSync s)))"
  using assms by (simp add: start_def fileWatcher_start_def)

lemma stop_when_running:
  assumes "isRunning s"
  shows "\<not> isRunning (fst (stop s))"
  using assms by (simp add: stop_def fileWatcher_stop_def)

text \<open>
  Claim C8. \<open>start\<close> on a stopped server whose watch directory exists returns and
  leaves the server running; \<open>stop\<close> on a running server leaves it stopped. \<open>start\<close>
  on a running server and \<open>stop\<close> on a stopped one return the state they were given
  and do nothing but warn. \<open>start\<close> on a stopped server whose watch directory does not
  exist throws an error, and the state, still stopped, is the one it was given.
\<close>

theorem server_lifecycle:
  "(\<not> isRunning s \<and> existsSync (watchDirectory s) \<longrightarrow>
      fst (start existsSync s) = Inr () \<and> isRunning (fst (snd (start existsSync s))))
 \<and> (isRunning s \<longrightarrow> \<not> isRunning (fst (stop s)))
 \<and> (isRunning s \<longrightarrow> start existsSync s = (Inr (), s, [SWarn ServerAlreadyRunning]))
 \<and> (\<not> isRunning s \<longrightarrow> stop s = (s, [SWarn ServerNotRunning]))
 \<and> (\<not> isRunning s \<and> \<not> existsSync (watchDirectory s) \<longrightarrow>
      fst (start existsSync s) = Inl (ErrorObj (watch_directory_missing (watchDirectory s)))
    \<and> fst (snd (start existsSync s)) = s
    \<and> \<not> isRunning (fst (snd (start existsSync s))))"
proof (intro conjI impI)
  assume "\<not> isRunning s \<and> existsSync (watchDirectory s)"
  then show "fst (start existsSync s) = Inr ()"
    and "isRunning (fst (snd (start existsSync s)))"
    using start_when_stopped [of s existsSync] by simp_all
next
  assume "isRunning s"
  then show "\<not> isRunning (fst (stop s))" by (rule stop_when_running)
next
  assume "isRunning s"
  then show "start existsSync s = (Inr (), s, [SWarn ServerAlreadyRunning])"
    by (simp add: start_def)
next
  assume "\<not> isRunning s"
  then show "stop s = (s, [SWarn ServerNotRunning])"
    by (simp add: stop_def)
next
  assume a: "\<not> isRunning s \<and> \<not> existsSync (watchDirectory s)"
  then show "fst (start existsSync s) = Inl (ErrorObj (watch_directory_missing (watchDirectory s)))"
    and "fst (snd (start existsSync s)) = s"
    and "\<not> isRunning (fst (snd (start existsSync s)))"
    by (simp_all add: start_def)
qed

theorem server_lifecycle_witness:
  "isRunning (fst (snd (start (\<lambda>d. d = ''/logs'') stopped_server)))
 \<and> fst (start (\<lambda>d. d = ''/logs'') stopped_server) = Inr ()
 \<and> \<not> isRunning (fst (stop running_server))
 \<and> start (\<lambda>d. d = ''/logs'') running_server
      = (Inr (), running_server, [SWarn ServerAlreadyRunning])
 \<and> stop stopped_server = (stopped_server, [SWarn ServerNotRunning])
 \<and> fst (start (\<lambda>d. False) stopped_server)
      = Inl (ErrorObj (watch_directory_missing ''/logs''))
 \<and> fst (snd (start (\<lambda>d. False) stopped_server)) = stopped_server"
  using server_lifecycle [of stopped_server "\<lambda>d. d = ''/logs''"]
    server_lifecycle [of running_server "\<lambda>d. d = ''/logs''"]
    server_lifecycle [of stopped_server "\<lambda>d. False"]
  by (simp add: stopped_server_def running_server_def)

end
